theory Spec2Isabelle
  imports Main "HOL-Library.Word" "HOL-Library.Multiset"
begin

unbundle bit_operations_syntax

section \<open>Error rank\<close>

text \<open>
  Error numbers are C \<open>int\<close>s.  The values are those of the Linux port
  (\<open>EIO\<close> 5, \<open>ENXIO\<close> 6, \<open>EAGAIN\<close> 11, \<open>ENOSPC\<close> 28; \<open>ECKSUM\<close> is
  \<open>EBADE\<close>, 52).  Only their being pairwise distinct and nonzero is used.
\<close>

definition EIO :: int where "EIO = 5"
definition ENXIO :: int where "ENXIO = 6"
definition EAGAIN :: int where "EAGAIN = 11"
definition ENOSPC :: int where "ENOSPC = 28"
definition ECKSUM :: int where "ECKSUM = 52"

lemmas errno_defs = EIO_def ENXIO_def EAGAIN_def ENOSPC_def ECKSUM_def

text \<open>\<^verbatim>\<open>static int zio_error_rank[] = { 0, ENXIO, ECKSUM, EIO };\<close>\<close>

definition zio_error_rank :: "int list" where
  "zio_error_rank = [0, ENXIO, ECKSUM, EIO]"

text \<open>
  \<^verbatim>\<open>for (r = 0; r < sizeof (zio_error_rank) / sizeof (int); r++)
        if (e == zio_error_rank[r]) break;\<close>
  started at index \<open>r\<close> with the rest \<open>tbl\<close> of the table; the result is the
  value of \<open>r\<close> after the loop (the length of the table when nothing matches).
\<close>

fun rank_loop :: "int \<Rightarrow> int list \<Rightarrow> nat \<Rightarrow> nat" where
  "rank_loop e [] r = r"
| "rank_loop e (x # tbl) r = (if e = x then r else rank_loop e tbl (Suc r))"

text \<open>\<^verbatim>\<open>return (r1 > r2 ? e1 : e2);\<close>\<close>

definition zio_worst_error :: "int \<Rightarrow> int \<Rightarrow> int" where
  "zio_worst_error e1 e2 =
     (let r1 = rank_loop e1 zio_error_rank 0;
          r2 = rank_loop e2 zio_error_rank 0
      in if r1 > r2 then e1 else e2)"

section \<open>The I/O node and its heap\<close>

text \<open>
  An \<open>ASSERT\<close>, \<open>VERIFY\<close> or \<open>IMPLY\<close> of the source that fails is a panic, and
  so are \<open>fm_panic\<close> and the use of a \<open>NULL\<close> pointer: the functions below return
  \<open>Inl ASSERT_FAILED\<close> there, and \<open>Inr\<close> the result otherwise.  Assertions on fields
  the model does not carry are left out.
\<close>

datatype zio_panic = ASSERT_FAILED

datatype zio_type = ZIO_TYPE_NULL | ZIO_TYPE_READ | ZIO_TYPE_WRITE | ZIO_TYPE_FREE
  | ZIO_TYPE_CLAIM | ZIO_TYPE_FLUSH | ZIO_TYPE_TRIM

datatype zio_child = ZIO_CHILD_VDEV | ZIO_CHILD_GANG | ZIO_CHILD_DDT | ZIO_CHILD_LOGICAL


definition ZIO_CHILD_TYPES :: "zio_child list" where
  "ZIO_CHILD_TYPES = [ZIO_CHILD_VDEV, ZIO_CHILD_GANG, ZIO_CHILD_DDT, ZIO_CHILD_LOGICAL]"

datatype zio_wait_type = ZIO_WAIT_READY | ZIO_WAIT_DONE

definition ZIO_WAIT_TYPES :: "zio_wait_type list" where
  "ZIO_WAIT_TYPES = [ZIO_WAIT_READY, ZIO_WAIT_DONE]"

text \<open>
  \<open>io_flags\<close> and \<open>io_post\<close> are bit masks of named one-bit flags; the model keeps
  the set of flags that are on: \<open>flags & F\<close> is \<open>F \<in> flags\<close>, \<open>flags |= F\<close> is
  \<open>insert F flags\<close>, \<open>flags &= ~F\<close> is \<open>flags - {F}\<close>.
\<close>

datatype zio_flag = ZIO_FLAG_CANFAIL | ZIO_FLAG_SPECULATIVE | ZIO_FLAG_DONT_PROPAGATE
  | ZIO_FLAG_IO_REWRITE | ZIO_FLAG_IO_REPAIR | ZIO_FLAG_NOPWRITE | ZIO_FLAG_GODFATHER
  | ZIO_FLAG_DDT_CHILD | ZIO_FLAG_GANG_CHILD | ZIO_FLAG_NODATA | ZIO_FLAG_RAW
  | ZIO_FLAG_ALLOC_THROTTLED | ZIO_FLAG_PREALLOCATED | ZIO_FLAG_SCAN_THREAD
  | ZIO_FLAG_REEXECUTED

datatype zio_post = ZIO_POST_REEXECUTE | ZIO_POST_SUSPEND | ZIO_POST_DIO_CHKSUM_ERR

datatype zio_priority = ZIO_PRIORITY_SYNC_READ | ZIO_PRIORITY_SYNC_WRITE
  | ZIO_PRIORITY_ASYNC_READ | ZIO_PRIORITY_ASYNC_WRITE | ZIO_PRIORITY_NOW

datatype zio_taskq_type = ZIO_TASKQ_ISSUE | ZIO_TASKQ_ISSUE_HIGH
  | ZIO_TASKQ_INTERRUPT | ZIO_TASKQ_INTERRUPT_HIGH

subsection \<open>Pipeline stages\<close>

text \<open>
  \<open>enum zio_stage\<close> has one bit per stage, in the order of the table
  \<open>zio_pipeline[]\<close>: \<open>__zio_execute\<close> calls \<open>zio_pipeline[highbit64(stage) - 1]\<close>,
  so the handler at index \<open>k\<close> of that table belongs to the stage \<open>1 << k\<close>.
\<close>

type_synonym zio_stage = "32 word"

definition stage_bit :: "nat \<Rightarrow> zio_stage" where
  "stage_bit k = push_bit k 1"

definition ZIO_STAGE_OPEN :: zio_stage where "ZIO_STAGE_OPEN = stage_bit 0"
definition ZIO_STAGE_ISSUE_ASYNC :: zio_stage where "ZIO_STAGE_ISSUE_ASYNC = stage_bit 4"
definition ZIO_STAGE_NOP_WRITE :: zio_stage where "ZIO_STAGE_NOP_WRITE = stage_bit 8"
definition ZIO_STAGE_DDT_WRITE :: zio_stage where "ZIO_STAGE_DDT_WRITE = stage_bit 12"
definition ZIO_STAGE_GANG_ASSEMBLE :: zio_stage where "ZIO_STAGE_GANG_ASSEMBLE = stage_bit 14"
definition ZIO_STAGE_GANG_ISSUE :: zio_stage where "ZIO_STAGE_GANG_ISSUE = stage_bit 15"
definition ZIO_STAGE_DVA_THROTTLE :: zio_stage where "ZIO_STAGE_DVA_THROTTLE = stage_bit 16"
definition ZIO_STAGE_DVA_ALLOCATE :: zio_stage where "ZIO_STAGE_DVA_ALLOCATE = stage_bit 17"
definition ZIO_STAGE_READY :: zio_stage where "ZIO_STAGE_READY = stage_bit 20"
definition ZIO_STAGE_VDEV_IO_START :: zio_stage where "ZIO_STAGE_VDEV_IO_START = stage_bit 21"
definition ZIO_STAGE_VDEV_IO_DONE :: zio_stage where "ZIO_STAGE_VDEV_IO_DONE = stage_bit 22"
definition ZIO_STAGE_VDEV_IO_ASSESS :: zio_stage where "ZIO_STAGE_VDEV_IO_ASSESS = stage_bit 23"
definition ZIO_STAGE_DONE :: zio_stage where "ZIO_STAGE_DONE = stage_bit 26"

lemmas zio_stage_defs = stage_bit_def ZIO_STAGE_OPEN_def ZIO_STAGE_ISSUE_ASYNC_def
  ZIO_STAGE_NOP_WRITE_def ZIO_STAGE_DDT_WRITE_def ZIO_STAGE_GANG_ASSEMBLE_def
  ZIO_STAGE_GANG_ISSUE_def ZIO_STAGE_DVA_THROTTLE_def
  ZIO_STAGE_DVA_ALLOCATE_def ZIO_STAGE_READY_def ZIO_STAGE_VDEV_IO_START_def
  ZIO_STAGE_VDEV_IO_DONE_def ZIO_STAGE_VDEV_IO_ASSESS_def ZIO_STAGE_DONE_def

text \<open>
  \<open>ZIO_INTERLOCK_PIPELINE\<close> is declared in a header that is not part of the sources at
  hand.  It is the pipeline of \<open>zio_null\<close>, which "provides synchronization at READY
  and DONE pipeline stages": the stages READY and DONE.
\<close>

definition ZIO_INTERLOCK_PIPELINE :: zio_stage where
  "ZIO_INTERLOCK_PIPELINE = ZIO_STAGE_READY OR ZIO_STAGE_DONE"

text \<open>The stages that issue device I/O, \<open>zio_vdev_io_start\<close> to \<open>zio_vdev_io_assess\<close>.\<close>

definition ZIO_VDEV_IO_STAGES :: zio_stage where
  "ZIO_VDEV_IO_STAGES =
     ZIO_STAGE_VDEV_IO_START OR ZIO_STAGE_VDEV_IO_DONE OR ZIO_STAGE_VDEV_IO_ASSESS"

subsection \<open>Block pointers\<close>

text \<open>
  A block pointer is read through the accessor macros of the on-disk format
  (\<open>BP_IS_HOLE\<close>, \<open>BP_GET_CHECKSUM\<close>, ...), which are not part of the sources at hand.
  The model keeps a block pointer as the record of the values those accessors return;
  the structure assignment \<open>*bp = *bp_orig\<close> copies the record.  \<open>bp_dva_vdevs\<close> lists
  \<open>DVA_GET_VDEV\<close> of the first \<open>BP_GET_NDVAS\<close> DVAs, so \<open>BP_GET_NDVAS\<close> is its length.
\<close>

record blkptr =
  bp_is_hole :: bool
  bp_is_gang :: bool
  bp_is_embedded :: bool
  bp_is_encrypted :: bool
  bp_level :: nat
  bp_checksum :: nat
  bp_compress :: nat
  bp_dedup :: bool
  bp_psize :: nat
  bp_lsize :: nat
  bp_logical_birth :: nat
  bp_dva_vdevs :: "nat list"
  blk_prop :: "64 word"
  blk_cksum :: "64 word list"

definition BP_GET_NDVAS :: "blkptr \<Rightarrow> nat" where
  "BP_GET_NDVAS bp = length (bp_dva_vdevs bp)"

text \<open>\<open>zio_prop_t\<close>, the write policy of a node (the fields the model uses).\<close>

record zio_prop =
  zp_checksum :: nat
  zp_compress :: nat
  zp_copies :: nat
  zp_gang_copies :: nat
  zp_dedup :: bool
  zp_dedup_verify :: bool
  zp_nopwrite :: bool

subsection \<open>Gang trees\<close>

text \<open>
  \<open>zio_gang_node_t\<close>: the gang header \<open>gn_gbh\<close>, an array of
  \<open>gbh_nblkptrs(gn_gangblocksize)\<close> block pointers, and the array \<open>gn_child\<close> of as
  many child nodes (\<open>NULL\<close> is \<open>None\<close>).  Slot \<open>g\<close> of \<open>gn_slots\<close> pairs
  \<open>gbh_bp(gn->gn_gbh, g)\<close> with \<open>gn->gn_child[g]\<close>.
\<close>

datatype zio_gang_node = GangNode (gn_slots: "(blkptr \<times> zio_gang_node option) list")

subsection \<open>Nodes\<close>

type_synonym zio_id = nat

text \<open>\<open>zbookmark_phys_t\<close>; \<open>zb_level\<close> is signed.\<close>

record zbookmark_phys =
  zb_objset :: nat
  zb_object :: nat
  zb_level :: int
  zb_blkid :: nat

text \<open>
  \<open>zio_link_t\<close>.  \<open>zl_id\<close> stands for the address of the link, which is what
  \<open>list_remove\<close> identifies it by.
\<close>

record zio_link =
  zl_id :: nat
  zl_parent :: zio_id
  zl_child :: zio_id

text \<open>
  \<open>zio_t\<close>, the fields the model uses.  Pointers to nodes are node ids, \<open>NULL\<close> is
  \<open>None\<close>.  The counters \<open>io_children[c][w]\<close> are \<open>uint64_t\<close> in the source;
  they are natural numbers here, and taking one from a counter that is zero is the panic
  of \<open>ASSERT3U(*countp, >, 0)\<close>.  \<open>io_stall\<close> points at one of the node's own
  counters and is kept as the indices of that counter.  \<open>io_bp\<close> is the block pointer the
  node points at, \<open>io_has_done\<close> and \<open>io_has_waiter\<close> say whether \<open>io_done\<close> and
  \<open>io_waiter\<close> are set.  \<open>io_allocator\<close> is \<open>None\<close> for \<open>ZIO_ALLOCATOR_NONE\<close>.
\<close>

record zio =
  io_type :: zio_type
  io_child_type :: zio_child
  io_priority :: zio_priority
  io_flags :: "zio_flag set"
  io_post :: "zio_post set"
  io_stage :: zio_stage
  io_pipeline :: zio_stage
  io_orig_pipeline :: zio_stage
  io_pipeline_trace :: zio_stage
  io_error :: int
  io_child_error :: "zio_child \<Rightarrow> int"
  io_children :: "zio_child \<Rightarrow> zio_wait_type \<Rightarrow> nat"
  io_state :: "zio_wait_type \<Rightarrow> bool"
  io_stall :: "(zio_child \<times> zio_wait_type) option"
  io_parent_list :: "zio_link list"
  io_child_list :: "zio_link list"
  io_has_done :: bool
  io_has_waiter :: bool
  io_executor :: bool
  io_vd :: "nat option"
  io_logical :: "zio_id option"
  io_gang_leader :: "zio_id option"
  io_gang_tree :: "zio_gang_node option"
  io_bp :: "blkptr option"
  io_bp_orig :: blkptr
  io_bp_override :: "blkptr option"
  io_prop :: zio_prop
  io_size :: nat
  io_txg :: nat
  io_metaslab_class :: "nat option"
  io_allocator :: "nat option"
  io_bookmark :: zbookmark_phys

text \<open>
  \<open>memset(zio, 0, sizeof (zio_t))\<close> in \<open>zio_create\<close>: the node with every field zero.
  The block pointer of all zeros is a hole.
\<close>

definition blkptr_zero :: blkptr where
  "blkptr_zero = \<lparr>bp_is_hole = True, bp_is_gang = False, bp_is_embedded = False,
     bp_is_encrypted = False, bp_level = 0, bp_checksum = 0, bp_compress = 0,
     bp_dedup = False, bp_psize = 0, bp_lsize = 0, bp_logical_birth = 0,
     bp_dva_vdevs = [], blk_prop = 0, blk_cksum = [0, 0, 0, 0]\<rparr>"

definition zio_prop_zero :: zio_prop where
  "zio_prop_zero = \<lparr>zp_checksum = 0, zp_compress = 0, zp_copies = 0, zp_gang_copies = 0,
     zp_dedup = False, zp_dedup_verify = False, zp_nopwrite = False\<rparr>"

definition zio_zero :: zio where
  "zio_zero = \<lparr>io_type = ZIO_TYPE_NULL, io_child_type = ZIO_CHILD_VDEV,
     io_priority = ZIO_PRIORITY_SYNC_READ, io_flags = {}, io_post = {},
     io_stage = 0, io_pipeline = 0, io_orig_pipeline = 0, io_pipeline_trace = 0,
     io_error = 0, io_child_error = (\<lambda>_. 0), io_children = (\<lambda>_ _. 0),
     io_state = (\<lambda>_. False), io_stall = None, io_parent_list = [], io_child_list = [],
     io_has_done = False, io_has_waiter = False, io_executor = False, io_vd = None,
     io_logical = None, io_gang_leader = None, io_gang_tree = None, io_bp = None,
     io_bp_orig = blkptr_zero, io_bp_override = None, io_prop = zio_prop_zero,
     io_size = 0, io_txg = 0, io_metaslab_class = None, io_allocator = None,
     io_bookmark = \<lparr>zb_objset = 0, zb_object = 0, zb_level = 0, zb_blkid = 0\<rparr>\<rparr>"

text \<open>\<^verbatim>\<open>#define IO_IS_ALLOCATING(zio) ((zio)->io_orig_pipeline & ZIO_STAGE_DVA_ALLOCATE)\<close>\<close>

definition IO_IS_ALLOCATING :: "zio \<Rightarrow> bool" where
  "IO_IS_ALLOCATING z \<longleftrightarrow> io_orig_pipeline z AND ZIO_STAGE_DVA_ALLOCATE \<noteq> 0"

text \<open>
  A pointer to a block pointer of a gang tree is kept as the place it points at and the
  block pointer found there.  The place is the path of slot indices that leads to it from
  the block pointer of the gang leader: \<open>[]\<close> is the leader's own block pointer,
  \<open>path @ [g]\<close> is \<open>gbh_bp(gn->gn_gbh, g)\<close> in the gang header that \<open>path\<close>
  points at.
\<close>

type_synonym bp_ref = "nat list \<times> blkptr"

text \<open>
  The heap of nodes, by node id, and the state of the pool around them.
  \<open>hp_next_zio\<close> and \<open>hp_next_link\<close> are the next fresh node and link addresses
  (\<open>kmem_cache_alloc\<close> of \<open>zio_cache\<close> and \<open>zio_link_cache\<close>).  \<open>hp_taskq\<close>
  lists the calls of \<open>zio_taskq_dispatch\<close>, \<open>hp_reexecute\<close> the nodes handed to
  \<open>zio_reexecute\<close> by \<open>spa_taskq_dispatch\<close>, \<open>hp_metaslab_free\<close> the calls of
  \<open>metaslab_free(spa, bp, txg, now)\<close>, \<open>hp_woken\<close> the nodes whose waiter was woken
  (\<open>cv_broadcast(&zio->io_cv)\<close>), \<open>hp_destroyed\<close> the nodes given to
  \<open>zio_destroy\<close>; all oldest first.  \<open>hp_suspended\<close> is \<open>spa_suspended(spa)\<close>,
  \<open>hp_suspend_zio_root\<close> is \<open>spa->spa_suspend_zio_root\<close>.  For the metaslab class
  \<open>mc\<close> and its allocator \<open>a\<close>, \<open>hp_mca_tree h mc a\<close> is the AVL tree
  \<open>mc->mc_allocator[a].mca_tree\<close>, as the list of its nodes in the order of the tree,
  and \<open>hp_mca_reserved h mc a\<close> is what the class has reserved for that allocator.
\<close>

record zio_heap =
  zios :: "zio_id \<Rightarrow> zio"
  hp_next_zio :: zio_id
  hp_next_link :: nat
  hp_taskq :: "(zio_id \<times> zio_taskq_type \<times> bool) list"
  hp_reexecute :: "zio_id list"
  hp_metaslab_free :: "(bp_ref \<times> nat \<times> bool) list"
  hp_woken :: "zio_id list"
  hp_destroyed :: "zio_id list"
  hp_suspended :: bool
  hp_suspend_zio_root :: "zio_id option"
  hp_mca_tree :: "nat \<Rightarrow> nat \<Rightarrow> zio_id list"
  hp_mca_reserved :: "nat \<Rightarrow> nat \<Rightarrow> nat"


definition upd_zio :: "zio_heap \<Rightarrow> zio_id \<Rightarrow> (zio \<Rightarrow> zio) \<Rightarrow> zio_heap" where
  "upd_zio h i f = h\<lparr>zios := (zios h)(i := f (zios h i))\<rparr>"

text \<open>
  \<open>zio_taskq_dispatch(zio, q, cutinline)\<close> hands the node to a task queue, from which
  \<open>zio_execute\<close> is called on it later.  Which task queue of the pool it picks
  is not modelled; the request is recorded.
\<close>

definition zio_taskq_dispatch :: "zio_heap \<Rightarrow> zio_id \<Rightarrow> zio_taskq_type \<Rightarrow> bool \<Rightarrow> zio_heap" where
  "zio_taskq_dispatch h zio q cutinline = h\<lparr>hp_taskq := hp_taskq h @ [(zio, q, cutinline)]\<rparr>"

section \<open>Parent/child relationships and pipeline interlocks\<close>






text \<open>
  The loop of \<open>zio_wait_for_children\<close> over the child types \<open>c\<close>, in their numeric
  order: the first child type in \<open>childbits\<close> whose counter for \<open>wait\<close> is not zero.
\<close>

fun wait_for_children_loop ::
  "zio \<Rightarrow> zio_child set \<Rightarrow> zio_wait_type \<Rightarrow> zio_child list \<Rightarrow> zio_child option" where
  "wait_for_children_loop z childbits wait [] = None"
| "wait_for_children_loop z childbits wait (c # cs) =
     (if c \<notin> childbits then wait_for_children_loop z childbits wait cs
      else if io_children z c wait \<noteq> 0 then Some c
      else wait_for_children_loop z childbits wait cs)"

definition zio_wait_for_children ::
  "zio_heap \<Rightarrow> zio_id \<Rightarrow> zio_child set \<Rightarrow> zio_wait_type \<Rightarrow> zio_panic + (bool \<times> zio_heap)" where
  "zio_wait_for_children h zio childbits wait =
     (let z = zios h zio in
      if io_stall z \<noteq> None then Inl ASSERT_FAILED
      else
        case wait_for_children_loop z childbits wait ZIO_CHILD_TYPES of
          None \<Rightarrow> Inr (False, h)
        | Some c \<Rightarrow>
            let stage = drop_bit 1 (io_stage z) in
            if stage = ZIO_STAGE_OPEN then Inl ASSERT_FAILED
            else Inr (True, upd_zio h zio (\<lambda>z. z\<lparr>io_stage := stage, io_stall := Some (c, wait)\<rparr>)))"


text \<open>\<open>zio_inherit_child_errors\<close>\<close>

definition zio_inherit_child_errors :: "zio \<Rightarrow> zio_child \<Rightarrow> zio" where
  "zio_inherit_child_errors z c =
     (if io_child_error z c \<noteq> 0 \<and> io_error z = 0
      then z\<lparr>io_error := io_child_error z c\<rparr> else z)"





subsection \<open>Runs of the parent/child protocol\<close>














section \<open>Nop-write\<close>

text \<open>
  What \<open>zio_nop_write\<close> reads from outside the node:
  \<open>cksum_nopwrite c\<close> is \<open>zio_checksum_table[c].ci_flags & ZCHECKSUM_FLAG_NOPWRITE\<close>,
  \<open>vdev_indirect v\<close> is \<open>vdev_lookup_top(spa, v)->vdev_ops == &vdev_indirect_ops\<close>,
  \<open>compress_off\<close> is the constant \<open>ZIO_COMPRESS_OFF\<close>.
\<close>

record nopwrite_env =
  cksum_nopwrite :: "nat \<Rightarrow> bool"
  vdev_indirect :: "nat \<Rightarrow> bool"
  compress_off :: nat

text \<open>
  \<^verbatim>\<open>for (int d = 0; d < BP_GET_NDVAS(bp_orig); d++) {
        vdev_t *tvd = vdev_lookup_top(zio->io_spa, DVA_GET_VDEV(&bp_orig->blk_dva[d]));
        if (tvd->vdev_ops == &vdev_indirect_ops) { ...; return (zio); }
  }\<close>
  over the DVAs still to look at: whether the loop returns early.
\<close>

fun nop_write_indirect_loop :: "nopwrite_env \<Rightarrow> nat list \<Rightarrow> bool" where
  "nop_write_indirect_loop env [] = False"
| "nop_write_indirect_loop env (v # vs) =
     (if vdev_indirect env v then True else nop_write_indirect_loop env vs)"

definition zio_nop_write :: "nopwrite_env \<Rightarrow> zio \<Rightarrow> zio_panic + zio" where
  "zio_nop_write env zio =
     (case io_bp zio of
        None \<Rightarrow> Inl ASSERT_FAILED
      | Some bp \<Rightarrow>
        let bp_orig = io_bp_orig zio; zp = io_prop zio in
        if \<not> bp_is_hole bp \<or> bp_level bp \<noteq> 0 \<or> ZIO_FLAG_IO_REWRITE \<in> io_flags zio \<or>
           \<not> zp_nopwrite zp \<or> zp_dedup zp \<or> io_bp_override zio \<noteq> None \<or>
           \<not> IO_IS_ALLOCATING zio
        then Inl ASSERT_FAILED
        else if bp_is_hole bp_orig \<or>
           \<not> cksum_nopwrite env (bp_checksum bp) \<or>
           bp_is_encrypted bp \<or> bp_is_encrypted bp_orig \<or>
           bp_checksum bp \<noteq> bp_checksum bp_orig \<or>
           bp_compress bp \<noteq> bp_compress bp_orig \<or>
           bp_dedup bp \<noteq> bp_dedup bp_orig \<or>
           zp_copies zp \<noteq> BP_GET_NDVAS bp_orig
        then Inr zio
        else if blk_cksum bp = blk_cksum bp_orig then
          if \<not> cksum_nopwrite env (zp_checksum zp) \<or>
             bp_psize bp \<noteq> bp_psize bp_orig \<or> bp_lsize bp \<noteq> bp_lsize bp_orig \<or>
             zp_compress zp = compress_off env \<or> blk_prop bp \<noteq> blk_prop bp_orig
          then Inl ASSERT_FAILED
          else if nop_write_indirect_loop env (bp_dva_vdevs bp_orig) then Inr zio
          else Inr (zio\<lparr>io_bp := Some bp_orig,
                         io_pipeline := ZIO_INTERLOCK_PIPELINE,
                         io_flags := insert ZIO_FLAG_NOPWRITE (io_flags zio)\<rparr>)
        else Inr zio)"

text \<open>
  An example: a level-0 write of one copy with nop-write on, whose new block pointer
  has the checksum, the algorithms and the properties of the previous one; the
  previous block is on vdev 7.  In \<open>ex_nop_env\<close> no vdev is indirect, in
  \<open>ex_nop_env_indirect\<close> vdev 7 is.
\<close>

definition ex_nop_bp_orig :: blkptr where
  "ex_nop_bp_orig = blkptr_zero\<lparr>bp_is_hole := False, bp_checksum := 8, bp_compress := 15,
     bp_psize := 4096, bp_lsize := 8192, bp_logical_birth := 5, bp_dva_vdevs := [7],
     blk_prop := 77, blk_cksum := [1, 2, 3, 4]\<rparr>"

definition ex_nop_bp :: blkptr where
  "ex_nop_bp = blkptr_zero\<lparr>bp_checksum := 8, bp_compress := 15,
     bp_psize := 4096, bp_lsize := 8192, blk_prop := 77, blk_cksum := [1, 2, 3, 4]\<rparr>"

definition ex_nop_zio :: zio where
  "ex_nop_zio = zio_zero\<lparr>io_type := ZIO_TYPE_WRITE, io_child_type := ZIO_CHILD_LOGICAL,
     io_stage := ZIO_STAGE_NOP_WRITE,
     io_pipeline := ZIO_STAGE_NOP_WRITE OR ZIO_STAGE_DVA_ALLOCATE OR ZIO_VDEV_IO_STAGES
        OR ZIO_INTERLOCK_PIPELINE,
     io_orig_pipeline := ZIO_STAGE_DVA_ALLOCATE OR ZIO_VDEV_IO_STAGES OR ZIO_INTERLOCK_PIPELINE,
     io_bp := Some ex_nop_bp, io_bp_orig := ex_nop_bp_orig,
     io_prop := zio_prop_zero\<lparr>zp_checksum := 8, zp_compress := 15, zp_copies := 1,
        zp_nopwrite := True\<rparr>\<rparr>"

definition ex_nop_env :: nopwrite_env where
  "ex_nop_env = \<lparr>cksum_nopwrite = (\<lambda>c. c = 8), vdev_indirect = (\<lambda>v. False), compress_off = 2\<rparr>"

definition ex_nop_env_indirect :: nopwrite_env where
  "ex_nop_env_indirect = ex_nop_env\<lparr>vdev_indirect := (\<lambda>v. v = 7)\<rparr>"

section \<open>Gang blocks\<close>

text \<open>
  What the walks over a gang tree change: the nodes created (\<open>zio_create\<close>, with the
  fresh id, the parent, the type and the block pointer), the calls of
  \<open>zio_free_sync\<close>, \<open>zio_claim\<close> and \<open>zio_nowait\<close>, and the calls of
  \<open>metaslab_free(spa, bp, txg, now)\<close>; all oldest first.
\<close>

record gang_created =
  gz_id :: zio_id
  gz_parent :: zio_id
  gz_type :: zio_type
  gz_bp :: "bp_ref option"

record gang_st =
  gs_next_zio :: zio_id
  gs_created :: "gang_created list"
  gs_free_sync :: "(zio_id \<times> bp_ref) list"
  gs_claim :: "(zio_id \<times> bp_ref) list"
  gs_nowait :: "zio_id list"
  gs_metaslab_free :: "(bp_ref \<times> nat \<times> bool) list"

text \<open>
  What the walks read from outside: \<open>brt_maybe_exists\<close>, and the callbacks
  \<open>zio_read_gang\<close> and \<open>zio_rewrite_gang\<close>, which the model does not embed.
\<close>

record gang_env =
  brt_maybe_exists :: "blkptr \<Rightarrow> bool"
  read_gang :: "gang_st \<Rightarrow> zio_id \<Rightarrow> bp_ref \<Rightarrow> zio_gang_node option \<Rightarrow> nat
     \<Rightarrow> zio_panic + (zio_id \<times> gang_st)"
  rewrite_gang :: "gang_st \<Rightarrow> zio_id \<Rightarrow> bp_ref \<Rightarrow> zio_gang_node option \<Rightarrow> nat
     \<Rightarrow> zio_panic + (zio_id \<times> gang_st)"

text \<open>\<open>zio_create\<close> as far as the walks need it: a fresh child of \<open>pio\<close>.\<close>

definition gang_zio_create ::
  "gang_st \<Rightarrow> zio_id \<Rightarrow> zio_type \<Rightarrow> bp_ref option \<Rightarrow> zio_id \<times> gang_st" where
  "gang_zio_create st pio type bp =
     (gs_next_zio st,
      st\<lparr>gs_next_zio := Suc (gs_next_zio st),
         gs_created := gs_created st @
           [\<lparr>gz_id = gs_next_zio st, gz_parent = pio, gz_type = type, gz_bp = bp\<rparr>]\<rparr>)"

text \<open>
  \<open>zio_free_sync\<close>: \<open>None\<close> is the \<open>NULL\<close> it returns when the free was done at
  once.
\<close>

definition zio_free_sync ::
  "gang_env \<Rightarrow> gang_st \<Rightarrow> zio_id \<Rightarrow> nat \<Rightarrow> bp_ref \<Rightarrow> zio_panic + (zio_id option \<times> gang_st)" where
  "zio_free_sync env st pio txg bpr =
     (let bp = snd bpr;
          st0 = st\<lparr>gs_free_sync := gs_free_sync st @ [(pio, bpr)]\<rparr> in
      if bp_is_hole bp then Inl ASSERT_FAILED
      else if bp_is_embedded bp then Inr (None, st0)
      else if bp_is_gang bp \<or> bp_dedup bp \<or> brt_maybe_exists env bp then
        (case gang_zio_create st0 pio ZIO_TYPE_FREE (Some bpr) of
           (zio, st1) \<Rightarrow> Inr (Some zio, st1))
      else Inr (None, st0\<lparr>gs_metaslab_free := gs_metaslab_free st0 @ [(bpr, txg, False)]\<rparr>))"

text \<open>\<open>zio_free_gang\<close>; \<open>txg\<close> is \<open>pio->io_txg\<close>.\<close>

definition zio_free_gang ::
  "gang_env \<Rightarrow> nat \<Rightarrow> gang_st \<Rightarrow> zio_id \<Rightarrow> bp_ref \<Rightarrow> zio_gang_node option \<Rightarrow> nat
     \<Rightarrow> zio_panic + (zio_id \<times> gang_st)" where
  "zio_free_gang env txg st pio bpr gn offset =
     (case zio_free_sync env st pio txg bpr of
        Inl e \<Rightarrow> Inl e
      | Inr (Some zio, st1) \<Rightarrow> Inr (zio, st1)
      | Inr (None, st1) \<Rightarrow> Inr (gang_zio_create st1 pio ZIO_TYPE_NULL None))"

text \<open>\<open>zio_claim_gang\<close>, a call of \<open>zio_claim\<close>, which creates a claim node.\<close>

definition zio_claim_gang ::
  "gang_st \<Rightarrow> zio_id \<Rightarrow> bp_ref \<Rightarrow> zio_gang_node option \<Rightarrow> nat
     \<Rightarrow> zio_panic + (zio_id \<times> gang_st)" where
  "zio_claim_gang st pio bpr gn offset =
     Inr (gang_zio_create (st\<lparr>gs_claim := gs_claim st @ [(pio, bpr)]\<rparr>) pio ZIO_TYPE_CLAIM (Some bpr))"

text \<open>
  \<^verbatim>\<open>static zio_gang_issue_func_t *zio_gang_issue_func[ZIO_TYPES] = {
        NULL, zio_read_gang, zio_rewrite_gang, zio_free_gang, zio_claim_gang, NULL };\<close>
\<close>

definition zio_gang_issue_func ::
  "gang_env \<Rightarrow> nat \<Rightarrow> zio_type \<Rightarrow>
     (gang_st \<Rightarrow> zio_id \<Rightarrow> bp_ref \<Rightarrow> zio_gang_node option \<Rightarrow> nat
        \<Rightarrow> zio_panic + (zio_id \<times> gang_st)) option" where
  "zio_gang_issue_func env txg t =
     (case t of
        ZIO_TYPE_NULL \<Rightarrow> None
      | ZIO_TYPE_READ \<Rightarrow> Some (read_gang env)
      | ZIO_TYPE_WRITE \<Rightarrow> Some (rewrite_gang env)
      | ZIO_TYPE_FREE \<Rightarrow> Some (zio_free_gang env txg)
      | ZIO_TYPE_CLAIM \<Rightarrow> Some zio_claim_gang
      | ZIO_TYPE_FLUSH \<Rightarrow> None
      | ZIO_TYPE_TRIM \<Rightarrow> None)"

text \<open>
  \<open>zio_gang_tree_issue(pio, gn, bp, data, offset)\<close>, with the gang leader \<open>gio\<close>
  (\<open>pio->io_gang_leader\<close>) given; calling the \<open>NULL\<close> entry of the table is a panic.
  \<open>zio_gang_tree_issue_loop\<close> is the loop over the slots \<open>g\<close> of the header still to
  visit, and returns the offset after the loop.  \<open>zio_nowait\<close> starts the created
  node; the walk does not wait for it, and the model records the call.
\<close>

fun zio_gang_tree_issue ::
    "gang_env \<Rightarrow> zio \<Rightarrow> gang_st \<Rightarrow> zio_id \<Rightarrow> zio_gang_node option \<Rightarrow> bp_ref \<Rightarrow> nat
       \<Rightarrow> zio_panic + gang_st"
  and zio_gang_tree_issue_loop ::
    "gang_env \<Rightarrow> zio \<Rightarrow> gang_st \<Rightarrow> zio_id \<Rightarrow> nat list \<Rightarrow> nat
       \<Rightarrow> (blkptr \<times> zio_gang_node option) list \<Rightarrow> nat \<Rightarrow> zio_panic + (nat \<times> gang_st)" where
  "zio_gang_tree_issue env gio st pio gn bpr offset =
     (let bp = snd bpr in
      if bp_is_gang bp \<noteq> (gn \<noteq> None) then Inl ASSERT_FAILED
      else if Some (bp_checksum bp) \<noteq> map_option bp_checksum (io_bp gio) then Inl ASSERT_FAILED
      else if \<not> (bp_lsize bp = bp_psize bp \<or> gn = io_gang_tree gio) then Inl ASSERT_FAILED
      else
        case zio_gang_issue_func env (io_txg gio) (io_type gio) of
          None \<Rightarrow> Inl ASSERT_FAILED
        | Some func \<Rightarrow>
            (case func st pio bpr gn offset of
               Inl e \<Rightarrow> Inl e
             | Inr (zio, st1) \<Rightarrow>
                 (case (case gn of
                          None \<Rightarrow> Inr (offset, st1)
                        | Some (GangNode slots) \<Rightarrow>
                            zio_gang_tree_issue_loop env gio st1 zio (fst bpr) 0 slots offset) of
                    Inl e \<Rightarrow> Inl e
                  | Inr (offset', st2) \<Rightarrow>
                      if gn = io_gang_tree gio \<and> io_size gio \<noteq> offset' then Inl ASSERT_FAILED
                      else if zio \<noteq> pio
                        then Inr (st2\<lparr>gs_nowait := gs_nowait st2 @ [zio]\<rparr>)
                        else Inr st2)))"
| "zio_gang_tree_issue_loop env gio st zio path g [] offset = Inr (offset, st)"
| "zio_gang_tree_issue_loop env gio st zio path g ((gbp, child) # slots) offset =
     (if bp_is_hole gbp then zio_gang_tree_issue_loop env gio st zio path (Suc g) slots offset
      else
        case zio_gang_tree_issue env gio st zio child (path @ [g], gbp) offset of
          Inl e \<Rightarrow> Inl e
        | Inr st' \<Rightarrow>
            zio_gang_tree_issue_loop env gio st' zio path (Suc g) slots (offset + bp_psize gbp))"



subsection \<open>The block pointers of a gang tree\<close>

text \<open>
  The block pointer at a place of the tree \<open>gn\<close> under the block pointer \<open>bp\<close>, if
  the place exists: the empty path is \<open>bp\<close> itself, and \<open>g # p\<close> is the place \<open>p\<close>
  under slot \<open>g\<close> of the header.
\<close>

fun gang_bp_at :: "blkptr \<Rightarrow> zio_gang_node option \<Rightarrow> nat list \<Rightarrow> blkptr option" where
  "gang_bp_at bp gn [] = Some bp"
| "gang_bp_at bp None (g # p) = None"
| "gang_bp_at bp (Some (GangNode slots)) (g # p) =
     (if g < length slots then gang_bp_at (fst (slots ! g)) (snd (slots ! g)) p else None)"

text \<open>
  A tree as \<open>zio_gang_tree_assemble_done\<close> builds it: slot \<open>g\<close> has a child node
  exactly when its block pointer is a gang block pointer
  (\<^verbatim>\<open>if (!BP_IS_GANG(gbp)) continue; zio_gang_tree_assemble(gio, gbp, &gn->gn_child[g]);\<close>).
  A gang block pointer has a DVA with the gang bit and is not a hole.
\<close>

fun gang_tree_assembled :: "zio_gang_node \<Rightarrow> bool"
  and gang_slots_assembled :: "(blkptr \<times> zio_gang_node option) list \<Rightarrow> bool" where
  "gang_tree_assembled (GangNode slots) = gang_slots_assembled slots"
| "gang_slots_assembled [] = True"
| "gang_slots_assembled ((gbp, child) # slots) =
     (((child \<noteq> None) = bp_is_gang gbp) \<and> \<not> (bp_is_gang gbp \<and> bp_is_hole gbp) \<and>
      (case child of None \<Rightarrow> True | Some n \<Rightarrow> gang_tree_assembled n) \<and>
      gang_slots_assembled slots)"

text \<open>All the places of a tree with their block pointers, the header before its slots.\<close>

fun gang_tree_refs :: "bp_ref \<Rightarrow> zio_gang_node option \<Rightarrow> bp_ref list"
  and gang_slot_refs :: "nat list \<Rightarrow> nat \<Rightarrow> (blkptr \<times> zio_gang_node option) list \<Rightarrow> bp_ref list" where
  "gang_tree_refs bpr None = [bpr]"
| "gang_tree_refs bpr (Some (GangNode slots)) = bpr # gang_slot_refs (fst bpr) 0 slots"
| "gang_slot_refs path g [] = []"
| "gang_slot_refs path g ((gbp, child) # slots) =
     gang_tree_refs (path @ [g], gbp) child @ gang_slot_refs path (Suc g) slots"

text \<open>
  An example: a gang block of five members on two levels.  The header of the leader has
  a member, a nested gang block and another member; the nested header has three
  members.  All were born in txg 9.  \<open>ex_gang_free\<close> is a free of that block,
  \<open>ex_gang_write\<close> a failed allocating write that leads it, \<open>ex_gang_rewrite\<close> the
  same node flagged as a rewrite.
\<close>

definition ex_gang_member :: blkptr where
  "ex_gang_member = blkptr_zero\<lparr>bp_is_hole := False, bp_checksum := 7, bp_psize := 512,
     bp_lsize := 512, bp_logical_birth := 9, bp_dva_vdevs := [0]\<rparr>"

definition ex_gang_inner_bp :: blkptr where
  "ex_gang_inner_bp = blkptr_zero\<lparr>bp_is_hole := False, bp_is_gang := True, bp_checksum := 7,
     bp_psize := 1536, bp_lsize := 1536, bp_logical_birth := 9, bp_dva_vdevs := [1]\<rparr>"

definition ex_gang_root_bp :: blkptr where
  "ex_gang_root_bp = blkptr_zero\<lparr>bp_is_hole := False, bp_is_gang := True, bp_checksum := 7,
     bp_psize := 2560, bp_lsize := 4096, bp_logical_birth := 9, bp_dva_vdevs := [2]\<rparr>"

definition ex_gang_tree :: zio_gang_node where
  "ex_gang_tree = GangNode
     [(ex_gang_member, None),
      (ex_gang_inner_bp,
         Some (GangNode [(ex_gang_member, None), (ex_gang_member, None), (ex_gang_member, None)])),
      (ex_gang_member, None)]"

definition ex_gang_free :: zio where
  "ex_gang_free = zio_zero\<lparr>io_type := ZIO_TYPE_FREE, io_child_type := ZIO_CHILD_LOGICAL,
     io_bp := Some ex_gang_root_bp, io_gang_leader := Some 0,
     io_gang_tree := Some ex_gang_tree, io_size := 2560, io_txg := 12\<rparr>"

definition ex_gang_write :: zio where
  "ex_gang_write = zio_zero\<lparr>io_type := ZIO_TYPE_WRITE, io_child_type := ZIO_CHILD_LOGICAL,
     io_orig_pipeline := ZIO_STAGE_DVA_ALLOCATE OR ZIO_VDEV_IO_STAGES OR ZIO_INTERLOCK_PIPELINE,
     io_error := EIO,
     io_bp := Some ex_gang_root_bp, io_gang_leader := Some 0,
     io_gang_tree := Some ex_gang_tree, io_size := 2560, io_txg := 9\<rparr>"

definition ex_gang_rewrite :: zio where
  "ex_gang_rewrite = ex_gang_write\<lparr>io_flags := {ZIO_FLAG_IO_REWRITE}\<rparr>"

definition ex_gang_env :: gang_env where
  "ex_gang_env = \<lparr>brt_maybe_exists = (\<lambda>bp. False),
     read_gang = (\<lambda>st pio bpr gn offset. Inl ASSERT_FAILED),
     rewrite_gang = (\<lambda>st pio bpr gn offset. Inl ASSERT_FAILED)\<rparr>"

definition ex_gang_st :: gang_st where
  "ex_gang_st = \<lparr>gs_next_zio = 1, gs_created = [], gs_free_sync = [], gs_claim = [],
     gs_nowait = [], gs_metaslab_free = []\<rparr>"


section \<open>The allocation throttle\<close>

text \<open>
  What the pipeline reads and calls outside the sources at hand.
  \<open>metaslab_class_throttle_reserve(mc, allocator, copies, io_size, must, &more)\<close> and
  \<open>metaslab_class_throttle_unreserve(mc, allocator, copies, io_size)\<close> are functions of
  the metaslab layer: \<open>throttle_reserve\<close> and \<open>throttle_unreserve\<close> take the class,
  the allocator, the copies, the size (and \<open>must\<close>) and what is reserved so far, and
  return their result (and \<open>more\<close>) with what is reserved afterwards.
  \<open>mc_alloc_throttle_enabled\<close> is the field of that name of a class,
  \<open>spa_preferred_class\<close> the function of that name.  \<open>spa_load_none\<close> is
  \<open>spa_load_state(spa) == SPA_LOAD_NONE\<close>, \<open>spa_failmode\<close> is
  \<open>spa_get_failmode(spa)\<close>.  \<open>pop_transforms_error\<close> is the \<open>io_error\<close> that
  \<open>zio_pop_transforms\<close> leaves.  \<open>io_ready_cb\<close> and \<open>io_done_cb\<close> are what the
  callbacks \<open>io_ready\<close> and \<open>io_done\<close> of a node do.  \<open>in_interrupt_taskq\<close> is
  \<open>zio_taskq_member(zio, ZIO_TASKQ_INTERRUPT)\<close> and \<open>stack_check\<close> is
  \<open>zio_execute_stack_check(zio)\<close>, both for the thread that runs the pipeline;
  \<open>requeue_cut_in_line\<close> is the tunable \<open>zio_requeue_io_start_cut_in_line\<close>, and
  \<open>blocking_stages\<close> the mask \<open>ZIO_BLOCKING_STAGES\<close>.
\<close>

datatype zio_failure_mode = ZIO_FAILURE_MODE_WAIT | ZIO_FAILURE_MODE_CONTINUE
  | ZIO_FAILURE_MODE_PANIC




definition set_mca_tree :: "zio_heap \<Rightarrow> nat \<Rightarrow> nat \<Rightarrow> zio_id list \<Rightarrow> zio_heap" where
  "set_mca_tree h mc a t = h\<lparr>hp_mca_tree := (hp_mca_tree h)(mc := (hp_mca_tree h mc)(a := t))\<rparr>"











section \<open>Properties of the error rank\<close>

lemma rank_loop_ge: "r \<le> rank_loop e tbl r"
  by (induction tbl arbitrary: r) (auto intro: Suc_leD)

lemma rank_loop_notin: "e \<notin> set tbl \<Longrightarrow> rank_loop e tbl r = r + length tbl"
  by (induction tbl arbitrary: r) auto

lemma rank_loop_eq_imp:
  "rank_loop a tbl r = rank_loop b tbl r \<Longrightarrow> a = b \<or> (a \<notin> set tbl \<and> b \<notin> set tbl)"
proof (induction tbl arbitrary: r)
  case Nil
  then show ?case by simp
next
  case (Cons x tbl)
  show ?case
  proof (cases "a = x")
    case True
    with Cons.prems rank_loop_ge [of "Suc r" b tbl] show ?thesis
      by (auto split: if_splits)
  next
    case False
    with Cons.prems Cons.IH [of "Suc r"] rank_loop_ge [of "Suc r" a tbl] show ?thesis
      by (auto split: if_splits)
  qed
qed

text \<open>
  Claim C1, as the code has it.  \<open>zio_worst_error\<close> is idempotent on every error
  number.  It is commutative whenever the two numbers are equal or at least one of them
  is in the ranked table \<open>0, ENXIO, ECKSUM, EIO\<close>; two numbers outside the table share
  the rank "other" and the second argument is returned.
\<close>

theorem zio_worst_error_idem_comm:
  "zio_worst_error a a = a \<and>
   (a = b \<or> a \<in> set zio_error_rank \<or> b \<in> set zio_error_rank
      \<longrightarrow> zio_worst_error a b = zio_worst_error b a) \<and>
   (a \<notin> set zio_error_rank \<and> b \<notin> set zio_error_rank \<longrightarrow> zio_worst_error a b = b)"
proof -
  let ?r = "\<lambda>e. rank_loop e zio_error_rank 0"
  have idem: "zio_worst_error a a = a"
    by (simp add: zio_worst_error_def)
  have comm: "zio_worst_error a b = zio_worst_error b a"
    if "a = b \<or> a \<in> set zio_error_rank \<or> b \<in> set zio_error_rank"
  proof (cases "?r a = ?r b")
    case True
    with rank_loop_eq_imp [of a zio_error_rank 0 b] that have "a = b" by blast
    then show ?thesis by simp
  next
    case False
    then show ?thesis by (auto simp: zio_worst_error_def Let_def)
  qed
  have out: "zio_worst_error a b = b"
    if "a \<notin> set zio_error_rank \<and> b \<notin> set zio_error_rank"
    using that by (simp add: zio_worst_error_def rank_loop_notin)
  from idem comm out show ?thesis by blast
qed

theorem zio_worst_error_idem_comm_witness:
  "zio_worst_error ENXIO ENXIO = ENXIO \<and>
   zio_worst_error ENXIO EIO = EIO \<and> zio_worst_error EIO ENXIO = EIO \<and>
   zio_worst_error ENOSPC EAGAIN = EAGAIN"
  using zio_worst_error_idem_comm [of ENXIO EIO] zio_worst_error_idem_comm [of ENOSPC EAGAIN]
  by (simp add: zio_worst_error_def zio_error_rank_def errno_defs)

text \<open>
  The claim as the specification words it (commutative on all error numbers) fails for
  two different numbers outside the table.
\<close>

theorem zio_worst_error_not_commutative:
  "zio_worst_error ENOSPC EAGAIN \<noteq> zio_worst_error EAGAIN ENOSPC"
  by (simp add: zio_worst_error_def zio_error_rank_def errno_defs)

section \<open>Properties of the parent/child protocol\<close>


lemma zios_upd_zio [simp]: "zios (upd_zio h i f) j = (if j = i then f (zios h i) else zios h j)"
  by (simp add: upd_zio_def)

lemma hp_upd_zio [simp]: "hp_next_link (upd_zio h i f) = hp_next_link h"
  "hp_taskq (upd_zio h i f) = hp_taskq h" "hp_next_zio (upd_zio h i f) = hp_next_zio h"
  "hp_reexecute (upd_zio h i f) = hp_reexecute h"
  "hp_metaslab_free (upd_zio h i f) = hp_metaslab_free h"
  "hp_woken (upd_zio h i f) = hp_woken h" "hp_destroyed (upd_zio h i f) = hp_destroyed h"
  "hp_suspended (upd_zio h i f) = hp_suspended h"
  "hp_suspend_zio_root (upd_zio h i f) = hp_suspend_zio_root h"
  "hp_mca_tree (upd_zio h i f) = hp_mca_tree h"
  "hp_mca_reserved (upd_zio h i f) = hp_mca_reserved h"
  by (simp_all add: upd_zio_def)

lemma zios_taskq_dispatch [simp]: "zios (zio_taskq_dispatch h z q ci) = zios h"
  by (simp add: zio_taskq_dispatch_def)


















































section \<open>Properties of nop-write\<close>


lemma nop_write_indirect_loop_iff:
  "nop_write_indirect_loop env vs \<longleftrightarrow> (\<exists>v \<in> set vs. vdev_indirect env v)"
  by (induction vs) auto

lemma interlock_no_alloc_no_io:
  "ZIO_INTERLOCK_PIPELINE AND ZIO_STAGE_DVA_ALLOCATE = 0"
  "ZIO_INTERLOCK_PIPELINE AND ZIO_VDEV_IO_STAGES = 0"
  by (simp_all add: ZIO_INTERLOCK_PIPELINE_def ZIO_VDEV_IO_STAGES_def zio_stage_defs)

text \<open>
  Claim C8, as the code has it.  When \<open>zio_nop_write\<close> returns, nop-write is on and
  dedup is off for the node (the stage asserts both).  If the previous block pointer is
  not a hole, the checksum algorithm can nop-write, neither block pointer is encrypted,
  no DVA of the previous block pointer is on an indirect vdev, and the checksum value,
  the checksum algorithm, the compression algorithm, the dedup flag and the copy count
  match, then the node's block pointer becomes the previous one, field for field, the
  node is flagged nop-write and its pipeline becomes the interlock pipeline, which has
  neither the allocation stage nor a device I/O stage.  Otherwise, in particular when
  the checksum value, the checksum algorithm, the compression algorithm or the copy
  count differs, the node is returned unchanged, with the pipeline it had.
\<close>

theorem zio_nop_write_reuses_or_allocates:
  assumes "zio_nop_write env zio = Inr zio'" and "io_bp zio = Some bp"
  shows "zp_nopwrite (io_prop zio) \<and> \<not> zp_dedup (io_prop zio) \<and>
    (if \<not> bp_is_hole (io_bp_orig zio) \<and> cksum_nopwrite env (bp_checksum bp) \<and>
        \<not> bp_is_encrypted bp \<and> \<not> bp_is_encrypted (io_bp_orig zio) \<and>
        (\<forall>v \<in> set (bp_dva_vdevs (io_bp_orig zio)). \<not> vdev_indirect env v) \<and>
        blk_cksum bp = blk_cksum (io_bp_orig zio) \<and>
        bp_checksum bp = bp_checksum (io_bp_orig zio) \<and>
        bp_compress bp = bp_compress (io_bp_orig zio) \<and>
        bp_dedup bp = bp_dedup (io_bp_orig zio) \<and>
        zp_copies (io_prop zio) = BP_GET_NDVAS (io_bp_orig zio)
     then io_bp zio' = Some (io_bp_orig zio) \<and>
          ZIO_FLAG_NOPWRITE \<in> io_flags zio' \<and>
          io_pipeline zio' = ZIO_INTERLOCK_PIPELINE \<and>
          io_pipeline zio' AND ZIO_STAGE_DVA_ALLOCATE = 0 \<and>
          io_pipeline zio' AND ZIO_VDEV_IO_STAGES = 0
     else zio' = zio)"
  using assms
  by (auto simp: zio_nop_write_def Let_def nop_write_indirect_loop_iff interlock_no_alloc_no_io
      split: if_splits)

lemmas nop_eval = zio_nop_write_def Let_def ex_nop_zio_def ex_nop_bp_def ex_nop_bp_orig_def
  ex_nop_env_def ex_nop_env_indirect_def zio_zero_def blkptr_zero_def zio_prop_zero_def
  IO_IS_ALLOCATING_def BP_GET_NDVAS_def ZIO_INTERLOCK_PIPELINE_def ZIO_VDEV_IO_STAGES_def
  zio_stage_defs

lemma ex_nop_run:
  "zio_nop_write ex_nop_env ex_nop_zio = Inr (ex_nop_zio\<lparr>io_bp := Some ex_nop_bp_orig,
      io_pipeline := ZIO_INTERLOCK_PIPELINE,
      io_flags := {ZIO_FLAG_NOPWRITE}\<rparr>)"
  by (simp add: nop_eval)

theorem zio_nop_write_reuses_or_allocates_witness:
  "zio_nop_write ex_nop_env ex_nop_zio = Inr (ex_nop_zio\<lparr>io_bp := Some ex_nop_bp_orig,
      io_pipeline := ZIO_INTERLOCK_PIPELINE, io_flags := {ZIO_FLAG_NOPWRITE}\<rparr>) \<and>
   io_bp ex_nop_zio = Some ex_nop_bp \<and>
   zp_nopwrite (io_prop ex_nop_zio) \<and> \<not> zp_dedup (io_prop ex_nop_zio) \<and>
   ZIO_INTERLOCK_PIPELINE AND ZIO_STAGE_DVA_ALLOCATE = 0 \<and>
   io_pipeline ex_nop_zio AND ZIO_STAGE_DVA_ALLOCATE \<noteq> 0"
proof -
  have b: "io_bp ex_nop_zio = Some ex_nop_bp" by (simp add: ex_nop_zio_def)
  from zio_nop_write_reuses_or_allocates [OF ex_nop_run b]
  have "zp_nopwrite (io_prop ex_nop_zio) \<and> \<not> zp_dedup (io_prop ex_nop_zio)" by blast
  moreover have "io_pipeline ex_nop_zio AND ZIO_STAGE_DVA_ALLOCATE \<noteq> 0"
    by (simp add: nop_eval)
  ultimately show ?thesis
    using ex_nop_run b interlock_no_alloc_no_io(1) by simp
qed

text \<open>
  The claim as the specification words it fails when the previous block is on an
  indirect vdev: everything the claim lists matches, and the node is returned unchanged,
  with its new block pointer and the allocation stage still in its pipeline.
\<close>

theorem zio_nop_write_indirect_vdev_counterexample:
  "zio_nop_write ex_nop_env_indirect ex_nop_zio = Inr ex_nop_zio \<and>
   io_bp ex_nop_zio = Some ex_nop_bp \<and> ex_nop_bp \<noteq> ex_nop_bp_orig \<and>
   zp_nopwrite (io_prop ex_nop_zio) \<and>
   blk_cksum ex_nop_bp = blk_cksum ex_nop_bp_orig \<and>
   bp_checksum ex_nop_bp = bp_checksum ex_nop_bp_orig \<and>
   bp_compress ex_nop_bp = bp_compress ex_nop_bp_orig \<and>
   bp_dedup ex_nop_bp = bp_dedup ex_nop_bp_orig \<and>
   zp_copies (io_prop ex_nop_zio) = BP_GET_NDVAS ex_nop_bp_orig \<and>
   cksum_nopwrite ex_nop_env_indirect (bp_checksum ex_nop_bp) \<and>
   io_pipeline ex_nop_zio AND ZIO_STAGE_DVA_ALLOCATE \<noteq> 0"
  by (simp add: nop_eval)

section \<open>Properties of the walks over a gang tree\<close>


lemma gang_refs_mem:
  "r \<in> set (gang_tree_refs bpr gn) \<longleftrightarrow>
     (\<exists>p. fst r = fst bpr @ p \<and> gang_bp_at (snd bpr) gn p = Some (snd r))"
  "r \<in> set (gang_slot_refs path g slots) \<longleftrightarrow>
     (\<exists>i p. i < length slots \<and> fst r = path @ (g + i) # p \<and>
        gang_bp_at (fst (slots ! i)) (snd (slots ! i)) p = Some (snd r))"
proof (induction bpr gn and path g slots arbitrary: r and r rule: gang_tree_refs_gang_slot_refs.induct)
  case (1 bpr)
  show ?case
  proof
    assume "r \<in> set (gang_tree_refs bpr None)"
    then have "r = bpr" by simp
    then have "fst r = fst bpr @ [] \<and> gang_bp_at (snd bpr) None [] = Some (snd r)" by simp
    then show "\<exists>p. fst r = fst bpr @ p \<and> gang_bp_at (snd bpr) None p = Some (snd r)" by blast
  next
    assume "\<exists>p. fst r = fst bpr @ p \<and> gang_bp_at (snd bpr) None p = Some (snd r)"
    then obtain p where p: "fst r = fst bpr @ p" "gang_bp_at (snd bpr) None p = Some (snd r)" by blast
    then have "p = []" by (cases p) simp_all
    with p show "r \<in> set (gang_tree_refs bpr None)" by (simp add: prod_eq_iff)
  qed
next
  case (2 bpr slots)
  show ?case
  proof
    assume "r \<in> set (gang_tree_refs bpr (Some (GangNode slots)))"
    then consider "r = bpr" | "r \<in> set (gang_slot_refs (fst bpr) 0 slots)" by auto
    then show "\<exists>p. fst r = fst bpr @ p \<and> gang_bp_at (snd bpr) (Some (GangNode slots)) p = Some (snd r)"
    proof cases
      case 1
      then have "fst r = fst bpr @ [] \<and> gang_bp_at (snd bpr) (Some (GangNode slots)) [] = Some (snd r)"
        by simp
      then show ?thesis by blast
    next
      case 2
      with "2.IH" obtain i p where "i < length slots" "fst r = fst bpr @ i # p"
        "gang_bp_at (fst (slots ! i)) (snd (slots ! i)) p = Some (snd r)" by auto
      then have "fst r = fst bpr @ (i # p) \<and>
         gang_bp_at (snd bpr) (Some (GangNode slots)) (i # p) = Some (snd r)" by simp
      then show ?thesis by blast
    qed
  next
    assume "\<exists>p. fst r = fst bpr @ p \<and> gang_bp_at (snd bpr) (Some (GangNode slots)) p = Some (snd r)"
    then obtain p where p: "fst r = fst bpr @ p"
      "gang_bp_at (snd bpr) (Some (GangNode slots)) p = Some (snd r)" by blast
    show "r \<in> set (gang_tree_refs bpr (Some (GangNode slots)))"
    proof (cases p)
      case Nil
      with p show ?thesis by (simp add: prod_eq_iff)
    next
      case (Cons i q)
      with p have "i < length slots \<and> fst r = fst bpr @ (0 + i) # q \<and>
         gang_bp_at (fst (slots ! i)) (snd (slots ! i)) q = Some (snd r)"
        by (simp split: if_splits)
      with "2.IH" have "r \<in> set (gang_slot_refs (fst bpr) 0 slots)" by blast
      then show ?thesis by simp
    qed
  qed
next
  case (3 path g)
  then show ?case by simp
next
  case (4 path g gbp child slots)
  show ?case
  proof
    assume "r \<in> set (gang_slot_refs path g ((gbp, child) # slots))"
    then consider "r \<in> set (gang_tree_refs (path @ [g], gbp) child)"
      | "r \<in> set (gang_slot_refs path (Suc g) slots)" by auto
    then show "\<exists>i p. i < length ((gbp, child) # slots) \<and> fst r = path @ (g + i) # p \<and>
        gang_bp_at (fst (((gbp, child) # slots) ! i)) (snd (((gbp, child) # slots) ! i)) p = Some (snd r)"
    proof cases
      case 1
      with "4.IH"(1) obtain p where "fst r = (path @ [g]) @ p" "gang_bp_at gbp child p = Some (snd r)"
        by auto
      then have "0 < length ((gbp, child) # slots) \<and> fst r = path @ (g + 0) # p \<and>
        gang_bp_at (fst (((gbp, child) # slots) ! 0)) (snd (((gbp, child) # slots) ! 0)) p = Some (snd r)"
        by simp
      then show ?thesis by blast
    next
      case 2
      with "4.IH"(2) obtain i p where "i < length slots" "fst r = path @ (Suc g + i) # p"
        "gang_bp_at (fst (slots ! i)) (snd (slots ! i)) p = Some (snd r)" by auto
      then have "Suc i < length ((gbp, child) # slots) \<and> fst r = path @ (g + Suc i) # p \<and>
        gang_bp_at (fst (((gbp, child) # slots) ! Suc i)) (snd (((gbp, child) # slots) ! Suc i)) p = Some (snd r)"
        by simp
      then show ?thesis by blast
    qed
  next
    assume "\<exists>i p. i < length ((gbp, child) # slots) \<and> fst r = path @ (g + i) # p \<and>
        gang_bp_at (fst (((gbp, child) # slots) ! i)) (snd (((gbp, child) # slots) ! i)) p = Some (snd r)"
    then obtain i p where ip: "i < length ((gbp, child) # slots)" "fst r = path @ (g + i) # p"
      "gang_bp_at (fst (((gbp, child) # slots) ! i)) (snd (((gbp, child) # slots) ! i)) p = Some (snd r)"
      by blast
    show "r \<in> set (gang_slot_refs path g ((gbp, child) # slots))"
    proof (cases i)
      case 0
      with ip have "fst r = (path @ [g]) @ p \<and> gang_bp_at gbp child p = Some (snd r)" by simp
      with "4.IH"(1) [of r] have "r \<in> set (gang_tree_refs (path @ [g], gbp) child)" by auto
      then show ?thesis by simp
    next
      case (Suc j)
      with ip have "j < length slots \<and> fst r = path @ (Suc g + j) # p \<and>
        gang_bp_at (fst (slots ! j)) (snd (slots ! j)) p = Some (snd r)" by simp
      with "4.IH"(2) [of r] have "r \<in> set (gang_slot_refs path (Suc g) slots)" by blast
      then show ?thesis by simp
    qed
  qed
qed

lemma gang_refs_distinct:
  "distinct (map fst (gang_tree_refs bpr gn))"
  "distinct (map fst (gang_slot_refs path g slots))"
proof (induction bpr gn and path g slots rule: gang_tree_refs_gang_slot_refs.induct)
  case (1 bpr)
  then show ?case by simp
next
  case (2 bpr slots)
  have "fst bpr \<notin> fst ` set (gang_slot_refs (fst bpr) 0 slots)"
    by (auto simp: gang_refs_mem(2))
  with 2 show ?case by simp
next
  case (3 path g)
  then show ?case by simp
next
  case (4 path g gbp child slots)
  have "fst ` set (gang_tree_refs (path @ [g], gbp) child) \<inter>
        fst ` set (gang_slot_refs path (Suc g) slots) = {}"
    by (auto simp: gang_refs_mem)
  with 4 show ?case by simp
qed

lemma gang_refs_root:
  "set (gang_tree_refs ([], bp) gn) = {(p, b). gang_bp_at bp gn p = Some b}"
  by (auto simp: gang_refs_mem(1))







lemma zio_free_gang_Inr:
  assumes "zio_free_gang env txg st pio bpr gn off = Inr (zio, st1)"
  shows "gs_free_sync st1 = gs_free_sync st @ [(pio, bpr)]" "\<not> bp_is_hole (snd bpr)"
  using assms
  by (auto simp: zio_free_gang_def zio_free_sync_def gang_zio_create_def Let_def
      split: if_splits sum.splits option.splits prod.splits)

lemma zio_gang_tree_issue_free_refs:
  "io_type gio = ZIO_TYPE_FREE \<Longrightarrow> (case gn of None \<Rightarrow> True | Some n \<Rightarrow> gang_tree_assembled n) \<Longrightarrow>
   zio_gang_tree_issue env gio st pio gn bpr offset = Inr st' \<Longrightarrow>
     \<exists>calls. gs_free_sync st' = gs_free_sync st @ calls \<and>
       map snd calls = filter (\<lambda>r. \<not> bp_is_hole (snd r)) (gang_tree_refs bpr gn)"
  "io_type gio = ZIO_TYPE_FREE \<Longrightarrow> gang_slots_assembled slots \<Longrightarrow>
   zio_gang_tree_issue_loop env gio st zio path g slots offset = Inr (offset', st') \<Longrightarrow>
     \<exists>calls. gs_free_sync st' = gs_free_sync st @ calls \<and>
       map snd calls = filter (\<lambda>r. \<not> bp_is_hole (snd r)) (gang_slot_refs path g slots)"
proof (induction env gio st pio gn bpr offset and env gio st zio path g slots offset
    arbitrary: st' and offset' st'
    rule: zio_gang_tree_issue_zio_gang_tree_issue_loop.induct)
  case (1 env gio st pio gn bpr offset)
  let ?func = "zio_free_gang env (io_txg gio)"
  have f: "zio_gang_issue_func env (io_txg gio) (io_type gio) = Some ?func"
    using "1.prems"(1) by (simp add: zio_gang_issue_func_def)
  from "1.prems"(3) have g: "\<not> bp_is_gang (snd bpr) \<noteq> (gn \<noteq> None)"
    "\<not> Some (bp_checksum (snd bpr)) \<noteq> map_option bp_checksum (io_bp gio)"
    "\<not> \<not> (bp_lsize (snd bpr) = bp_psize (snd bpr) \<or> gn = io_gang_tree gio)"
    by (auto simp: Let_def split: if_splits)
  from "1.prems"(3) g f obtain zio st1 where
    c: "?func st pio bpr gn offset = Inr (zio, st1)"
    by (auto simp: Let_def split: sum.splits)
  note fl = zio_free_gang_Inr [OF c]
  show ?case
  proof (cases gn)
    case None
    with "1.prems"(3) g f c have "gs_free_sync st' = gs_free_sync st1"
      by (auto simp: Let_def split: if_splits)
    with fl None show ?thesis by simp
  next
    case (Some n)
    obtain slots where n: "n = GangNode slots" by (cases n)
    from "1.prems"(3) g f c Some n obtain off2 st2 where
      l: "zio_gang_tree_issue_loop env gio st1 zio (fst bpr) 0 slots offset = Inr (off2, st2)"
      and e: "gs_free_sync st' = gs_free_sync st2"
      by (auto simp: Let_def split: if_splits sum.splits)
    have "gang_slots_assembled slots"
      using "1.prems"(2) Some n by simp
    from "1.IH" [OF refl g f c refl Some n "1.prems"(1) this l]
    obtain calls where "gs_free_sync st2 = gs_free_sync st1 @ calls"
      "map snd calls = filter (\<lambda>r. \<not> bp_is_hole (snd r)) (gang_slot_refs (fst bpr) 0 slots)"
      by blast
    with e fl Some n show ?thesis by simp
  qed
next
  case (2 env gio st zio path g offset)
  then show ?case by simp
next
  case (3 env gio st zio path g gbp child slots offset)
  from "3.prems"(2) have wf: "(child \<noteq> None) = bp_is_gang gbp" "\<not> (bp_is_gang gbp \<and> bp_is_hole gbp)"
    "case child of None \<Rightarrow> True | Some n \<Rightarrow> gang_tree_assembled n" "gang_slots_assembled slots"
    by simp_all
  show ?case
  proof (cases "bp_is_hole gbp")
    case True
    with wf have "child = None" by auto
    with True have r: "filter (\<lambda>r. \<not> bp_is_hole (snd r)) (gang_tree_refs (path @ [g], gbp) child) = []"
      by simp
    from True "3.prems"(3)
    have "zio_gang_tree_issue_loop env gio st zio path (Suc g) slots offset = Inr (offset', st')"
      by simp
    from "3.IH"(1) [OF True "3.prems"(1) wf(4) this] r show ?thesis by simp
  next
    case False
    with "3.prems"(3) obtain st1 where
      a: "zio_gang_tree_issue env gio st zio child (path @ [g], gbp) offset = Inr st1" and
      b: "zio_gang_tree_issue_loop env gio st1 zio path (Suc g) slots (offset + bp_psize gbp) =
            Inr (offset', st')"
      by (auto split: sum.splits)
    from "3.IH"(2) [OF False "3.prems"(1) wf(3) a]
    obtain c1 where c1: "gs_free_sync st1 = gs_free_sync st @ c1"
      "map snd c1 = filter (\<lambda>r. \<not> bp_is_hole (snd r)) (gang_tree_refs (path @ [g], gbp) child)"
      by blast
    from "3.IH"(3) [OF False a "3.prems"(1) wf(4) b]
    obtain c2 where c2: "gs_free_sync st' = gs_free_sync st1 @ c2"
      "map snd c2 = filter (\<lambda>r. \<not> bp_is_hole (snd r)) (gang_slot_refs path (Suc g) slots)"
      by blast
    from c1 c2 have "gs_free_sync st' = gs_free_sync st @ (c1 @ c2) \<and>
       map snd (c1 @ c2) = filter (\<lambda>r. \<not> bp_is_hole (snd r))
          (gang_slot_refs path g ((gbp, child) # slots))"
      by simp
    then show ?thesis by blast
  qed
qed



text \<open>
  Claim C4.  Issuing a free over an assembled gang tree calls \<open>zio_free_sync\<close> (the
  one thing the free callback \<open>zio_free_gang\<close> does with a block pointer) on every
  block pointer of the tree that is not a hole, the leader's own included, exactly once:
  the places of the new calls are pairwise different, and the calls are exactly the
  places of the tree that hold a block pointer that is not a hole, on every level.
\<close>

theorem gang_free_visits_each_pointer_once:
  assumes "io_type gio = ZIO_TYPE_FREE" and "gang_tree_assembled gn"
    and "zio_gang_tree_issue env gio st pio (Some gn) ([], bp) 0 = Inr st'"
  shows "\<exists>calls. gs_free_sync st' = gs_free_sync st @ calls \<and>
           distinct (map (fst \<circ> snd) calls) \<and>
           set (map snd calls) = {(p, b). gang_bp_at bp (Some gn) p = Some b \<and> \<not> bp_is_hole b}"
proof -
  from zio_gang_tree_issue_free_refs(1) [OF assms(1) _ assms(3)] assms(2)
  obtain calls where c: "gs_free_sync st' = gs_free_sync st @ calls"
    "map snd calls = filter (\<lambda>r. \<not> bp_is_hole (snd r)) (gang_tree_refs ([], bp) (Some gn))"
    by auto
  have "map (fst \<circ> snd) calls = map fst (map snd calls)" by simp
  also have "\<dots> = map fst (filter (\<lambda>r. \<not> bp_is_hole (snd r)) (gang_tree_refs ([], bp) (Some gn)))"
    by (simp only: c(2))
  finally have e: "map (fst \<circ> snd) calls =
      map fst (filter (\<lambda>r. \<not> bp_is_hole (snd r)) (gang_tree_refs ([], bp) (Some gn)))" .
  have "distinct (map fst (filter (\<lambda>r. \<not> bp_is_hole (snd r)) (gang_tree_refs ([], bp) (Some gn))))"
    using gang_refs_distinct(1) [of "([], bp)" "Some gn"] by (rule distinct_map_filter)
  then have "distinct (map (fst \<circ> snd) calls)"
    by (simp only: e)
  moreover have "set (map snd calls) = {(p, b). gang_bp_at bp (Some gn) p = Some b \<and> \<not> bp_is_hole b}"
    unfolding c(2) using gang_refs_root [of bp "Some gn"] by auto
  ultimately show ?thesis using c(1) by blast
qed

lemmas gang_eval = ex_gang_free_def ex_gang_write_def ex_gang_rewrite_def ex_gang_tree_def
  ex_gang_env_def ex_gang_st_def ex_gang_member_def ex_gang_inner_bp_def ex_gang_root_bp_def
  zio_zero_def blkptr_zero_def zio_gang_issue_func_def zio_free_gang_def zio_free_sync_def
  gang_zio_create_def Let_def

lemma ex_gang_issue:
  "\<exists>st'. zio_gang_tree_issue ex_gang_env ex_gang_free ex_gang_st 0 (Some ex_gang_tree)
       ([], ex_gang_root_bp) 0 = Inr st' \<and>
     map (fst \<circ> snd) (gs_free_sync st') = [[], [0], [1], [1, 0], [1, 1], [1, 2], [2]]"
  by (simp add: gang_eval)

theorem gang_free_visits_each_pointer_once_witness:
  "io_type ex_gang_free = ZIO_TYPE_FREE \<and> gang_tree_assembled ex_gang_tree \<and>
   (\<exists>st'. zio_gang_tree_issue ex_gang_env ex_gang_free ex_gang_st 0 (Some ex_gang_tree)
       ([], ex_gang_root_bp) 0 = Inr st' \<and>
     map (fst \<circ> snd) (gs_free_sync st') = [[], [0], [1], [1, 0], [1, 1], [1, 2], [2]] \<and>
     set (map snd (gs_free_sync st')) =
       {(p, b). gang_bp_at ex_gang_root_bp (Some ex_gang_tree) p = Some b \<and> \<not> bp_is_hole b})"
proof -
  have t: "io_type ex_gang_free = ZIO_TYPE_FREE" by (simp add: gang_eval)
  have a: "gang_tree_assembled ex_gang_tree" by (simp add: gang_eval)
  from ex_gang_issue obtain st' where
    r: "zio_gang_tree_issue ex_gang_env ex_gang_free ex_gang_st 0 (Some ex_gang_tree)
       ([], ex_gang_root_bp) 0 = Inr st'"
    and m: "map (fst \<circ> snd) (gs_free_sync st') = [[], [0], [1], [1, 0], [1, 1], [1, 2], [2]]"
    by (elim exE conjE)
  from gang_free_visits_each_pointer_once [OF t a r]
  have "set (map snd (gs_free_sync st')) =
       {(p, b). gang_bp_at ex_gang_root_bp (Some ex_gang_tree) p = Some b \<and> \<not> bp_is_hole b}"
    by (auto simp: ex_gang_st_def)
  with t a r m show ?thesis by (intro conjI exI [of _ st'])
qed






section \<open>Properties of the allocation throttle\<close>


lemma hp_set_mca_tree [simp]:
  "hp_mca_tree (set_mca_tree h mc a t) mc' a' = (if mc' = mc \<and> a' = a then t else hp_mca_tree h mc' a')"
  "zios (set_mca_tree h mc a t) = zios h"
  "hp_taskq (set_mca_tree h mc a t) = hp_taskq h"
  "hp_mca_reserved (set_mca_tree h mc a t) = hp_mca_reserved h"
  by (simp_all add: set_mca_tree_def)

lemma hp_taskq_dispatch [simp]:
  "hp_mca_tree (zio_taskq_dispatch h z q ci) = hp_mca_tree h"
  "hp_taskq (zio_taskq_dispatch h z q ci) = hp_taskq h @ [(z, q, ci)]"
  "hp_mca_reserved (zio_taskq_dispatch h z q ci) = hp_mca_reserved h"
  by (simp_all add: zio_taskq_dispatch_def)
































subsection \<open>The allocation throttle queues and dispatches\<close>



end
